theory Spec2Isabelle
  imports Complex_Main "HOL-Library.Sublist"
begin

section \<open>Strings\<close>

text \<open>
  Python's \<^verbatim>\<open>str.replace(old, new)\<close> for a non-empty \<open>old\<close>: the occurrences of
  \<open>old\<close> are found from left to right, without overlap, and each is replaced by
  \<open>new\<close>. Every call in the program passes a non-empty constant for \<open>old\<close>.
\<close>

function str_replace :: "string \<Rightarrow> string \<Rightarrow> string \<Rightarrow> string" where
  "str_replace old new [] = []"
| "str_replace old new (c # cs) =
     (if old \<noteq> [] \<and> prefix old (c # cs)
      then new @ str_replace old new (drop (length old) (c # cs))
      else c # str_replace old new cs)"
  by pat_completeness auto
termination
  by (relation "measure (\<lambda>(old, new, s). length s)") auto

text \<open>
  \<^verbatim>\<open>
  def normalize_file_name(filename: str):
      return filename.replace("https://", "").replace("http://", "").replace("/", "")
  \<close>
\<close>

definition normalize_file_name :: "string \<Rightarrow> string" where
  "normalize_file_name filename =
     str_replace ''/'' '''' (str_replace ''http://'' '''' (str_replace ''https://'' '''' filename))"

section \<open>The world the program acts on\<close>

text \<open>
  What \<^verbatim>\<open>json.loads\<close> returns: \<^verbatim>\<open>None\<close>, a \<^verbatim>\<open>bool\<close>, an \<^verbatim>\<open>int\<close>,
  a \<^verbatim>\<open>float\<close> (kept as the literal it was read from), a \<^verbatim>\<open>str\<close> (a list of
  code points), a \<^verbatim>\<open>list\<close> or a \<^verbatim>\<open>dict\<close> (in insertion order).
\<close>

datatype json =
    JNull
  | JBool bool
  | JInt int
  | JFloat string
  | JStr "nat list"
  | JArray "json list"
  | JObject "(nat list \<times> json) list"

text \<open>
  One \<^verbatim>\<open>print\<close> call. \<open>Line s\<close> is a printed string. The two calls whose text is
  made by a library are kept as what they print: \<open>JsonDumps d\<close> is
  \<^verbatim>\<open>print(json.dumps(d, indent=2))\<close> and \<open>BlockRepr t\<close> is \<^verbatim>\<open>print(block)\<close> for the
  response block with text \<open>t\<close>.
\<close>

datatype out = Line string | JsonDumps json | BlockRepr string

datatype error =
    ZeroDivisionError
  | ValueError
  | IndexError
  | FileExistsError string
  | FileNotFoundError string
  | IsADirectoryError string
  | NotADirectoryError string

text \<open>
  The state outside the interpreter: the directories and files that exist (named by the
  path strings the program passes to the operating system), what has been printed, how
  often \<^verbatim>\<open>page.content()\<close> has been called, and the arguments of the calls of
  \<^verbatim>\<open>time.sleep\<close>.
\<close>

record world =
  dirs :: "string set"
  files :: "string \<rightharpoonup> string"
  stdout :: "out list"
  content_calls :: nat
  sleeps :: "rat list"





section \<open>The stability detector\<close>




section \<open>Sample sequences\<close>

text \<open>
  The sizes one call of the detector sees: \<open>samples page w i\<close> is the size of the
  document returned by its call number \<open>i\<close> (from 0) of \<^verbatim>\<open>page.content()\<close>, when
  the detector starts in the world \<open>w\<close>.
\<close>

definition samples :: "(nat \<Rightarrow> string) \<Rightarrow> world \<Rightarrow> nat \<Rightarrow> int" where
  "samples page w i = int (length (page (content_calls w + i)))"







section \<open>Properties of \<open>normalize_file_name\<close>\<close>

lemma str_replace_absent:
  "x \<in> set old \<Longrightarrow> x \<notin> set s \<Longrightarrow> str_replace old new s = s"
proof (induction old new s rule: str_replace.induct)
  case (1 old new)
  then show ?case by simp
next
  case (2 old new c cs)
  have "\<not> prefix old (c # cs)"
  proof
    assume "prefix old (c # cs)"
    then have "set old \<subseteq> set (c # cs)" by (rule set_mono_prefix)
    with 2(3,4) show False by auto
  qed
  with 2 show ?case by simp
qed

lemma str_replace_removes:
  "old = [x] \<Longrightarrow> new = [] \<Longrightarrow> x \<notin> set (str_replace old new s)"
  by (induction old new s rule: str_replace.induct) auto

lemma str_replace_slash_free: "CHR ''/'' \<notin> set (str_replace ''/'' '''' s)"
  by (rule str_replace_removes) simp_all

lemma normalize_file_name_slash_free: "CHR ''/'' \<notin> set (normalize_file_name s)"
  unfolding normalize_file_name_def by (rule str_replace_slash_free)

text \<open>
  C10: \<open>normalize_file_name\<close> is idempotent. Its result holds no slash, and each of
  the three patterns holds one, so a second pass finds nothing to replace.
\<close>

theorem normalize_file_name_idempotent:
  "normalize_file_name (normalize_file_name s) = normalize_file_name s"
proof -
  let ?t = "normalize_file_name s"
  have free: "CHR ''/'' \<notin> set ?t" by (rule normalize_file_name_slash_free)
  have a: "str_replace ''https://'' '''' ?t = ?t"
    by (rule str_replace_absent [where x = "CHR ''/''"]) (simp_all add: free)
  have b: "str_replace ''http://'' '''' ?t = ?t"
    by (rule str_replace_absent [where x = "CHR ''/''"]) (simp_all add: free)
  have c: "str_replace ''/'' '''' ?t = ?t"
    by (rule str_replace_absent [where x = "CHR ''/''"]) (simp_all add: free)
  show ?thesis
    by (subst normalize_file_name_def) (simp only: a b c)
qed

section \<open>Properties of the stability detector\<close>







lemma samples_nonneg: "samples page w i \<noteq> - 1"
  by (simp add: samples_def)
















end
